theory Spec2Isabelle
  imports Complex_Main
begin

section \<open>The source text of \<open>snippets/model.py\<close>\<close>

text \<open>
  The module is kept as Python's tokenizer delivers it to the parser: a list of logical
  lines, each with the number of its first physical line. Comments and blank lines carry
  no token, and a call that spans several physical lines inside its parentheses is one
  logical line. A keyword is a \<open>NAME\<close> token like any identifier. The integer literal
  \<open>16\<close> is \<open>NUM_INT 16\<close>; the decimal literal \<open>0.2\<close> is \<open>NUM_FLOAT 2 1\<close>, the digits
  \<open>2\<close> with one of them after the point.
\<close>

datatype token =
    NAME string
  | NUM_INT int
  | NUM_FLOAT int nat
  | STRING string
  | OP string

type_synonym logical_line = "nat \<times> token list"

definition model_py :: "logical_line list" where
  "model_py =
    [(1, [NAME ''mport'', NAME ''tensorflow'', NAME ''as'', NAME ''tf'']),
     (2, [NAME ''IM_SIZE'', OP ''='', NUM_INT 16]),
     (4, [NAME ''image_input'', OP ''='',
          NAME ''tf'', OP ''.'', NAME ''keras'', OP ''.'', NAME ''Input'',
          OP ''('', NAME ''shape'', OP ''='',
            OP ''('', NAME ''IM_SIZE'', OP '','', NAME ''IM_SIZE'', OP '','', NUM_INT 3, OP '')'',
          OP '')'']),
     (7, [NAME ''conv_1'', OP ''='',
          NAME ''tf'', OP ''.'', NAME ''keras'', OP ''.'', NAME ''layers'', OP ''.'', NAME ''Conv2D'',
          OP ''('', NUM_INT 32, OP '','',
            NAME ''kernel_size'', OP ''='', OP ''('', NUM_INT 3, OP '','', NUM_INT 3, OP '')'', OP '','',
            NAME ''padding'', OP ''='', STRING ''same'', OP '','',
            NAME ''activation'', OP ''='', STRING ''relu'', OP '')'',
          OP ''('', NAME ''image_input'', OP '')'']),
     (11, [NAME ''conv_1'', OP ''='',
          NAME ''tf'', OP ''.'', NAME ''keras'', OP ''.'', NAME ''layers'', OP ''.'', NAME ''MaxPooling2D'',
          OP ''('', NAME ''padding'', OP ''='', STRING ''same'', OP '')'',
          OP ''('', NAME ''conv_1'', OP '')'']),
     (12, [NAME ''conv_2'', OP ''='',
          NAME ''tf'', OP ''.'', NAME ''keras'', OP ''.'', NAME ''layers'', OP ''.'', NAME ''Conv2D'',
          OP ''('', NUM_INT 32, OP '','',
            NAME ''kernel_size'', OP ''='', OP ''('', NUM_INT 3, OP '','', NUM_INT 3, OP '')'', OP '','',
            NAME ''padding'', OP ''='', STRING ''same'', OP '','',
            NAME ''activation'', OP ''='', STRING ''relu'', OP '')'',
          OP ''('', NAME ''conv_1'', OP '')'']),
     (16, [NAME ''conv_2'', OP ''='',
          NAME ''tf'', OP ''.'', NAME ''keras'', OP ''.'', NAME ''layers'', OP ''.'', NAME ''MaxPooling2D'',
          OP ''('', NAME ''padding'', OP ''='', STRING ''same'', OP '')'',
          OP ''('', NAME ''conv_2'', OP '')'']),
     (19, [NAME ''conv_flat'', OP ''='',
          NAME ''tf'', OP ''.'', NAME ''keras'', OP ''.'', NAME ''layers'', OP ''.'', NAME ''Flatten'',
          OP ''('', OP '')'',
          OP ''('', NAME ''conv_2'', OP '')'']),
     (22, [NAME ''fc_1'', OP ''='',
          NAME ''tf'', OP ''.'', NAME ''keras'', OP ''.'', NAME ''layers'', OP ''.'', NAME ''Dense'',
          OP ''('', NUM_INT 128, OP '','',
            NAME ''activation'', OP ''='', STRING ''relu'', OP '')'',
          OP ''('', NAME ''conv_flat'', OP '')'']),
     (24, [NAME ''fc_1'', OP ''='',
          NAME ''tf'', OP ''.'', NAME ''keras'', OP ''.'', NAME ''layers'', OP ''.'', NAME ''Dropout'',
          OP ''('', NUM_FLOAT 2 1, OP '')'',
          OP ''('', NAME ''fc_1'', OP '')'']),
     (25, [NAME ''fc_2'', OP ''='',
          NAME ''tf'', OP ''.'', NAME ''keras'', OP ''.'', NAME ''layers'', OP ''.'', NAME ''Dense'',
          OP ''('', NUM_INT 128, OP '','',
            NAME ''activation'', OP ''='', STRING ''relu'', OP '')'',
          OP ''('', NAME ''fc_1'', OP '')'']),
     (27, [NAME ''fc_2'', OP ''='',
          NAME ''tf'', OP ''.'', NAME ''keras'', OP ''.'', NAME ''layers'', OP ''.'', NAME ''Dropout'',
          OP ''('', NUM_FLOAT 2 1, OP '')'',
          OP ''('', NAME ''fc_2'', OP '')'']),
     (30, [NAME ''weather_output'', OP ''='',
          NAME ''tf'', OP ''.'', NAME ''keras'', OP ''.'', NAME ''layers'', OP ''.'', NAME ''Dense'',
          OP ''('', NUM_INT 4, OP '','',
            NAME ''activation'', OP ''='', STRING ''softmax'', OP '','',
            NAME ''name'', OP ''='', STRING ''weather'', OP '')'',
          OP ''('', NAME ''fc_2'', OP '')'']),
     (33, [NAME ''ground_output'', OP ''='',
          NAME ''tf'', OP ''.'', NAME ''keras'', OP ''.'', NAME ''layers'', OP ''.'', NAME ''Dense'',
          OP ''('', NUM_INT 13, OP '','',
            NAME ''activation'', OP ''='', STRING ''sigmoid'', OP '','',
            NAME ''name'', OP ''='', STRING ''ground'', OP '')'',
          OP ''('', NAME ''fc_2'', OP '')''])]"

section \<open>Parsing\<close>

text \<open>
  The fragment of Python's grammar that the module is written in: an import of one module,
  an assignment to one name, an expression statement; expressions built from names,
  literals, parenthesised tuples, attribute references and calls with positional and
  keyword arguments. The parser is recursive descent; its first argument bounds the depth
  of the recursion, and \<open>OutOfFuel\<close> says that the bound was reached, which is not the
  same as \<open>Invalid\<close>, the verdict that the tokens are no sentence of the grammar.
\<close>

datatype expr =
    Name string
  | IntLit int
  | FloatLit int nat
  | StrLit string
  | TupleE "expr list"
  | Attribute expr string
  | Call expr "expr list" "(string \<times> expr) list"

datatype stmt =
    Import string string
  | Assign string expr
  | ExprStmt expr

datatype 'a parsed = Ok 'a | Invalid | OutOfFuel

fun and_then :: "'a parsed \<Rightarrow> ('a \<Rightarrow> 'b parsed) \<Rightarrow> 'b parsed" where
  "and_then (Ok x) f = f x"
| "and_then Invalid f = Invalid"
| "and_then OutOfFuel f = OutOfFuel"

definition kwlist :: "string list" where
  "kwlist =
    [''False'', ''None'', ''True'', ''and'', ''as'', ''assert'', ''async'', ''await'',
     ''break'', ''class'', ''continue'', ''def'', ''del'', ''elif'', ''else'', ''except'',
     ''finally'', ''for'', ''from'', ''global'', ''if'', ''import'', ''in'', ''is'',
     ''lambda'', ''nonlocal'', ''not'', ''or'', ''pass'', ''raise'', ''return'', ''try'',
     ''while'', ''with'', ''yield'']"

definition is_identifier :: "string \<Rightarrow> bool" where
  "is_identifier x = (x \<notin> set kwlist)"

fun head_is :: "string \<Rightarrow> token list \<Rightarrow> bool" where
  "head_is p (OP q # ts) = (q = p)"
| "head_is p ts = False"

fun kwarg_head :: "token list \<Rightarrow> (string \<times> token list) option" where
  "kwarg_head (NAME k # OP q # ts) = (if q = ''='' \<and> is_identifier k then Some (k, ts) else None)"
| "kwarg_head ts = None"

fun parse_expr :: "nat \<Rightarrow> token list \<Rightarrow> (expr \<times> token list) parsed"
  and parse_trailers :: "nat \<Rightarrow> expr \<Rightarrow> token list \<Rightarrow> (expr \<times> token list) parsed"
  and parse_items :: "nat \<Rightarrow> token list \<Rightarrow> (expr list \<times> bool \<times> token list) parsed"
  and parse_args :: "nat \<Rightarrow> bool \<Rightarrow> token list \<Rightarrow>
        (expr list \<times> (string \<times> expr) list \<times> token list) parsed"
where
  "parse_expr 0 ts = OutOfFuel"
| "parse_expr (Suc n) ts =
    (case ts of
       NAME x # r \<Rightarrow> if is_identifier x then parse_trailers n (Name x) r else Invalid
     | NUM_INT i # r \<Rightarrow> parse_trailers n (IntLit i) r
     | NUM_FLOAT m k # r \<Rightarrow> parse_trailers n (FloatLit m k) r
     | STRING s # r \<Rightarrow> parse_trailers n (StrLit s) r
     | OP p # r \<Rightarrow>
         if p = ''('' then
           and_then (parse_items n r) (\<lambda>(es, comma, r').
             parse_trailers n (if length es = 1 \<and> \<not> comma then hd es else TupleE es) r')
         else Invalid
     | [] \<Rightarrow> Invalid)"
| "parse_trailers 0 e ts = OutOfFuel"
| "parse_trailers (Suc n) e ts =
    (if head_is ''.'' ts then
       (case tl ts of
          NAME x # r \<Rightarrow> if is_identifier x then parse_trailers n (Attribute e x) r else Invalid
        | _ \<Rightarrow> Invalid)
     else if head_is ''('' ts then
       and_then (parse_args n False (tl ts)) (\<lambda>(pos, kw, r).
         if distinct (map fst kw) then parse_trailers n (Call e pos kw) r else Invalid)
     else Ok (e, ts))"
| "parse_items 0 ts = OutOfFuel"
| "parse_items (Suc n) ts =
    (if head_is '')'' ts then Ok ([], False, tl ts)
     else
       and_then (parse_expr n ts) (\<lambda>(e, r).
         if head_is '','' r then
           and_then (parse_items n (tl r)) (\<lambda>(es, _, r'). Ok (e # es, True, r'))
         else if head_is '')'' r then Ok ([e], False, tl r)
         else Invalid))"
| "parse_args 0 seen_kw ts = OutOfFuel"
| "parse_args (Suc n) seen_kw ts =
    (if head_is '')'' ts then Ok ([], [], tl ts)
     else
       (case kwarg_head ts of
          Some (k, r) \<Rightarrow>
            and_then (parse_expr n r) (\<lambda>(v, r').
              if head_is '','' r' then
                and_then (parse_args n True (tl r')) (\<lambda>(pos, kw, r''). Ok (pos, (k, v) # kw, r''))
              else if head_is '')'' r' then Ok ([], [(k, v)], tl r')
              else Invalid)
        | None \<Rightarrow>
            if seen_kw then Invalid
            else
              and_then (parse_expr n ts) (\<lambda>(v, r').
                if head_is '','' r' then
                  and_then (parse_args n False (tl r')) (\<lambda>(pos, kw, r''). Ok (v # pos, kw, r''))
                else if head_is '')'' r' then Ok ([v], [], tl r')
                else Invalid)))"

datatype py_error =
    SyntaxError nat
  | RecursionError
  | NameError string
  | AttributeError string
  | TypeError
  | ValueError
  | ModuleNotFoundError string

text \<open>
  One logical line is one simple statement. A line that starts with the keyword
  \<open>import\<close> is an import; a name followed by \<open>=\<close> starts an assignment; anything else
  has to be an expression that uses up the line.
\<close>

definition parse_stmt :: "token list \<Rightarrow> stmt parsed" where
  "parse_stmt ts =
    (case ts of
       NAME x # r \<Rightarrow>
         if x = ''import'' then
           (case r of
              [NAME m] \<Rightarrow> if is_identifier m then Ok (Import m m) else Invalid
            | [NAME m, NAME a, NAME b] \<Rightarrow>
                if is_identifier m \<and> a = ''as'' \<and> is_identifier b then Ok (Import m b) else Invalid
            | _ \<Rightarrow> Invalid)
         else if is_identifier x \<and> head_is ''='' r then
           and_then (parse_expr (2 * length ts + 2) (tl r)) (\<lambda>(e, r').
             if r' = [] then Ok (Assign x e) else Invalid)
         else
           and_then (parse_expr (2 * length ts + 2) ts) (\<lambda>(e, r').
             if r' = [] then Ok (ExprStmt e) else Invalid)
     | _ \<Rightarrow>
         and_then (parse_expr (2 * length ts + 2) ts) (\<lambda>(e, r').
           if r' = [] then Ok (ExprStmt e) else Invalid))"

fun parse_module :: "logical_line list \<Rightarrow> py_error + stmt list" where
  "parse_module [] = Inr []"
| "parse_module ((lineno, ts) # ls) =
    (case parse_stmt ts of
       Ok s \<Rightarrow> (case parse_module ls of Inl e \<Rightarrow> Inl e | Inr ss \<Rightarrow> Inr (s # ss))
     | Invalid \<Rightarrow> Inl (SyntaxError lineno)
     | OutOfFuel \<Rightarrow> Inl RecursionError)"

section \<open>Values, layers and the layer graph\<close>

text \<open>
  A layer is recorded with the arguments that fix the architecture: \<open>Conv2D\<close> with its
  filters, kernel size, strides, padding and activation, \<open>MaxPooling2D\<close> with its pool
  size, strides and padding, \<open>Dense\<close> with its units and activation, \<open>Dropout\<close> with its
  rate. Calling a layer on a tensor appends a node to the graph; the tensor the call
  returns is the index of that node. Shapes leave the batch axis out.
\<close>

datatype activation = Linear | Relu | Softmax | Sigmoid

datatype padding = Valid | Same

datatype layer =
    InputLayer "nat list"
  | Conv2D nat "nat \<times> nat" "nat \<times> nat" padding activation
  | MaxPooling2D "nat \<times> nat" "nat \<times> nat" padding
  | Flatten
  | Dense nat activation
  | Dropout real

text \<open>
  Every layer has a name. The source gives one to the two heads; to a layer constructed
  without a name the framework gives a generated one, made from the layer's class and a
  counter that the process keeps for each class and advances with every name it
  generates. A generated name is recorded as the class and the value of the counter; how
  the framework spells the pair as a string is left out.
\<close>

datatype layer_name = Given string | Generated string nat

fun class_name :: "layer \<Rightarrow> string" where
  "class_name (InputLayer sh) = ''InputLayer''"
| "class_name (Conv2D f k st pad act) = ''Conv2D''"
| "class_name (MaxPooling2D p st pad) = ''MaxPooling2D''"
| "class_name Flatten = ''Flatten''"
| "class_name (Dense u act) = ''Dense''"
| "class_name (Dropout r) = ''Dropout''"

record node =
  node_layer :: layer
  node_name :: layer_name
  node_inputs :: "nat list"
  node_shape :: "nat list"

datatype pyvalue =
    IntV int
  | FloatV real
  | StrV string
  | TupleV "pyvalue list"
  | ApiV "string list"
  | LayerV layer layer_name
  | TensorV nat

text \<open>
  The state: the module's namespace, the graph built so far, and the framework's name
  counters, one for each layer class.
\<close>

record pystate =
  globals :: "string \<rightharpoonup> pyvalue"
  graph :: "node list"
  uids :: "string \<Rightarrow> nat"

fun bind_err :: "'e + 'a \<Rightarrow> ('a \<Rightarrow> 'e + 'b) \<Rightarrow> 'e + 'b" where
  "bind_err (Inl e) f = Inl e"
| "bind_err (Inr x) f = f x"

subsection \<open>The framework's namespace\<close>

text \<open>
  The part of the \<open>tensorflow\<close> package the module refers to, as dotted paths. The
  framework itself is no part of the repository: its constructors are modelled from their
  documented signatures and defaults, restricted to the parameters listed in each
  definition, and every other argument is a \<open>TypeError\<close> of the model.
\<close>

definition api_members :: "string list \<Rightarrow> string list" where
  "api_members path =
    (if path = [''tensorflow''] then [''keras'']
     else if path = [''tensorflow'', ''keras''] then [''Input'', ''layers'']
     else if path = [''tensorflow'', ''keras'', ''layers'']
       then [''Conv2D'', ''MaxPooling2D'', ''Flatten'', ''Dense'', ''Dropout'']
     else [])"

fun getattr :: "pyvalue \<Rightarrow> string \<Rightarrow> py_error + pyvalue" where
  "getattr (ApiV path) a =
    (if a \<in> set (api_members path) then Inr (ApiV (path @ [a])) else Inl (AttributeError a))"
| "getattr v a = Inl (AttributeError a)"

subsection \<open>Binding call arguments to parameters\<close>

fun bind_positional :: "string list \<Rightarrow> pyvalue list \<Rightarrow> py_error + (string \<times> pyvalue) list" where
  "bind_positional ps [] = Inr []"
| "bind_positional [] (v # vs) = Inl TypeError"
| "bind_positional (p # ps) (v # vs) = bind_err (bind_positional ps vs) (\<lambda>b. Inr ((p, v) # b))"

fun bind_keywords ::
  "string list \<Rightarrow> (string \<times> pyvalue) list \<Rightarrow> (string \<times> pyvalue) list \<Rightarrow>
   py_error + (string \<times> pyvalue) list" where
  "bind_keywords ps b [] = Inr b"
| "bind_keywords ps b ((k, v) # kws) =
    (if k \<in> set ps \<and> map_of b k = None then bind_keywords ps (b @ [(k, v)]) kws
     else Inl TypeError)"

definition bind_args ::
  "string list \<Rightarrow> string list \<Rightarrow> pyvalue list \<Rightarrow> (string \<times> pyvalue) list \<Rightarrow>
   py_error + (string \<rightharpoonup> pyvalue)" where
  "bind_args ps ks pos kw =
    bind_err (bind_positional ps pos) (\<lambda>b.
    bind_err (bind_keywords (ps @ ks) b kw) (\<lambda>b'. Inr (map_of b')))"

definition required :: "(string \<rightharpoonup> pyvalue) \<Rightarrow> string \<Rightarrow> py_error + pyvalue" where
  "required a p = (case a p of None \<Rightarrow> Inl TypeError | Some v \<Rightarrow> Inr v)"

definition default :: "(string \<rightharpoonup> pyvalue) \<Rightarrow> string \<Rightarrow> pyvalue \<Rightarrow> pyvalue" where
  "default a p d = (case a p of None \<Rightarrow> d | Some v \<Rightarrow> v)"

fun as_dim :: "pyvalue \<Rightarrow> py_error + nat" where
  "as_dim (IntV i) = (if 0 < i then Inr (nat i) else Inl ValueError)"
| "as_dim v = Inl TypeError"

fun as_dims :: "pyvalue list \<Rightarrow> py_error + nat list" where
  "as_dims [] = Inr []"
| "as_dims (v # vs) = bind_err (as_dim v) (\<lambda>d. bind_err (as_dims vs) (\<lambda>ds. Inr (d # ds)))"

fun as_shape :: "pyvalue \<Rightarrow> py_error + nat list" where
  "as_shape (TupleV vs) = as_dims vs"
| "as_shape v = Inl TypeError"

fun as_pair :: "pyvalue \<Rightarrow> py_error + nat \<times> nat" where
  "as_pair (IntV i) = bind_err (as_dim (IntV i)) (\<lambda>d. Inr (d, d))"
| "as_pair (TupleV [a, b]) = bind_err (as_dim a) (\<lambda>x. bind_err (as_dim b) (\<lambda>y. Inr (x, y)))"
| "as_pair v = Inl ValueError"

fun as_padding :: "pyvalue \<Rightarrow> py_error + padding" where
  "as_padding (StrV s) =
    (if s = ''valid'' then Inr Valid else if s = ''same'' then Inr Same else Inl ValueError)"
| "as_padding v = Inl ValueError"

fun as_activation :: "pyvalue option \<Rightarrow> py_error + activation" where
  "as_activation None = Inr Linear"
| "as_activation (Some (StrV s)) =
    (if s = ''linear'' then Inr Linear
     else if s = ''relu'' then Inr Relu
     else if s = ''softmax'' then Inr Softmax
     else if s = ''sigmoid'' then Inr Sigmoid
     else Inl ValueError)"
| "as_activation (Some v) = Inl TypeError"

fun as_name :: "pyvalue option \<Rightarrow> py_error + string option" where
  "as_name None = Inr None"
| "as_name (Some (StrV s)) = Inr (Some s)"
| "as_name (Some v) = Inl TypeError"

fun as_rate :: "pyvalue \<Rightarrow> py_error + real" where
  "as_rate (FloatV r) = (if 0 \<le> r \<and> r \<le> 1 then Inr r else Inl ValueError)"
| "as_rate (IntV i) = (if 0 \<le> i \<and> i \<le> 1 then Inr (of_int i) else Inl ValueError)"
| "as_rate v = Inl TypeError"

subsection \<open>The layer constructors\<close>

text \<open>
  Each constructor binds its arguments and returns the layer with the \<open>name\<close> argument,
  if one was given; \<open>set_name\<close> then names the layer, from the counter of its class when
  no name was given.
\<close>

definition Conv2D_init ::
  "pyvalue list \<Rightarrow> (string \<times> pyvalue) list \<Rightarrow> py_error + layer \<times> string option" where
  "Conv2D_init pos kw =
    bind_err (bind_args [''filters'', ''kernel_size'', ''strides'', ''padding'']
                [''activation'', ''name''] pos kw) (\<lambda>a.
    bind_err (bind_err (required a ''filters'') as_dim) (\<lambda>filters.
    bind_err (bind_err (required a ''kernel_size'') as_pair) (\<lambda>kernel_size.
    bind_err (as_pair (default a ''strides'' (TupleV [IntV 1, IntV 1]))) (\<lambda>strides.
    bind_err (as_padding (default a ''padding'' (StrV ''valid''))) (\<lambda>pad.
    bind_err (as_activation (a ''activation'')) (\<lambda>act.
    bind_err (as_name (a ''name'')) (\<lambda>nm.
    Inr (Conv2D filters kernel_size strides pad act, nm))))))))"

definition MaxPooling2D_init ::
  "pyvalue list \<Rightarrow> (string \<times> pyvalue) list \<Rightarrow> py_error + layer \<times> string option" where
  "MaxPooling2D_init pos kw =
    bind_err (bind_args [''pool_size'', ''strides'', ''padding''] [''name''] pos kw) (\<lambda>a.
    bind_err (as_pair (default a ''pool_size'' (TupleV [IntV 2, IntV 2]))) (\<lambda>pool_size.
    bind_err (case a ''strides'' of None \<Rightarrow> Inr pool_size | Some v \<Rightarrow> as_pair v) (\<lambda>strides.
    bind_err (as_padding (default a ''padding'' (StrV ''valid''))) (\<lambda>pad.
    bind_err (as_name (a ''name'')) (\<lambda>nm.
    Inr (MaxPooling2D pool_size strides pad, nm))))))"

definition Flatten_init ::
  "pyvalue list \<Rightarrow> (string \<times> pyvalue) list \<Rightarrow> py_error + layer \<times> string option" where
  "Flatten_init pos kw =
    bind_err (bind_args [] [''name''] pos kw) (\<lambda>a.
    bind_err (as_name (a ''name'')) (\<lambda>nm.
    Inr (Flatten, nm)))"

definition Dense_init ::
  "pyvalue list \<Rightarrow> (string \<times> pyvalue) list \<Rightarrow> py_error + layer \<times> string option" where
  "Dense_init pos kw =
    bind_err (bind_args [''units'', ''activation''] [''name''] pos kw) (\<lambda>a.
    bind_err (bind_err (required a ''units'') as_dim) (\<lambda>units.
    bind_err (as_activation (a ''activation'')) (\<lambda>act.
    bind_err (as_name (a ''name'')) (\<lambda>nm.
    Inr (Dense units act, nm)))))"

definition Dropout_init ::
  "pyvalue list \<Rightarrow> (string \<times> pyvalue) list \<Rightarrow> py_error + layer \<times> string option" where
  "Dropout_init pos kw =
    bind_err (bind_args [''rate''] [''name''] pos kw) (\<lambda>a.
    bind_err (bind_err (required a ''rate'') as_rate) (\<lambda>rate.
    bind_err (as_name (a ''name'')) (\<lambda>nm.
    Inr (Dropout rate, nm))))"

subsection \<open>Output shapes\<close>

text \<open>
  The framework's shape rules: with padding \<open>same\<close> a convolution or a pooling over an
  axis of length \<open>n\<close> with stride \<open>s\<close> yields \<open>\<lceil>n / s\<rceil>\<close> positions, with padding
  \<open>valid\<close> it yields \<open>\<lfloor>(n - k) / s\<rfloor> + 1\<close>; \<open>Flatten\<close> multiplies the axes out;
  \<open>Dense\<close> replaces the last axis by its units.
\<close>

definition conv_output_length :: "padding \<Rightarrow> nat \<Rightarrow> nat \<Rightarrow> nat \<Rightarrow> py_error + nat" where
  "conv_output_length pad n k stride =
    (case pad of
       Same \<Rightarrow> Inr ((n + stride - 1) div stride)
     | Valid \<Rightarrow> if n < k then Inl ValueError else Inr ((n - k) div stride + 1))"

fun compute_output_shape :: "layer \<Rightarrow> nat list \<Rightarrow> py_error + nat list" where
  "compute_output_shape (InputLayer sh) s = Inl TypeError"
| "compute_output_shape (Conv2D f k st pad act) s =
    (case s of
       [h, w, c] \<Rightarrow>
         bind_err (conv_output_length pad h (fst k) (fst st)) (\<lambda>h'.
         bind_err (conv_output_length pad w (snd k) (snd st)) (\<lambda>w'. Inr [h', w', f]))
     | _ \<Rightarrow> Inl ValueError)"
| "compute_output_shape (MaxPooling2D p st pad) s =
    (case s of
       [h, w, c] \<Rightarrow>
         bind_err (conv_output_length pad h (fst p) (fst st)) (\<lambda>h'.
         bind_err (conv_output_length pad w (snd p) (snd st)) (\<lambda>w'. Inr [h', w', c]))
     | _ \<Rightarrow> Inl ValueError)"
| "compute_output_shape Flatten s = Inr [prod_list s]"
| "compute_output_shape (Dense u act) s =
    (if s = [] then Inl ValueError else Inr (butlast s @ [u]))"
| "compute_output_shape (Dropout r) s = Inr s"

subsection \<open>Calls\<close>

definition set_name :: "layer \<Rightarrow> string option \<Rightarrow> pystate \<Rightarrow> layer_name \<times> pystate" where
  "set_name l nm st =
    (case nm of
       Some s \<Rightarrow> (Given s, st)
     | None \<Rightarrow>
         (Generated (class_name l) (uids st (class_name l)),
          st\<lparr>uids := (uids st)(class_name l := Suc (uids st (class_name l)))\<rparr>))"

definition new_layer :: "layer \<times> string option \<Rightarrow> pystate \<Rightarrow> py_error + pyvalue \<times> pystate" where
  "new_layer c st =
    (case c of (l, nm) \<Rightarrow>
       (case set_name l nm st of (n, st') \<Rightarrow> Inr (LayerV l n, st')))"

definition Input ::
  "pyvalue list \<Rightarrow> (string \<times> pyvalue) list \<Rightarrow> pystate \<Rightarrow> py_error + pyvalue \<times> pystate" where
  "Input pos kw st =
    bind_err (bind_args [''shape''] [''name''] pos kw) (\<lambda>a.
    bind_err (bind_err (required a ''shape'') as_shape) (\<lambda>sh.
    bind_err (as_name (a ''name'')) (\<lambda>nm.
    case set_name (InputLayer sh) nm st of (n, st') \<Rightarrow>
      Inr (TensorV (length (graph st')),
           st'\<lparr>graph := graph st' @
             [\<lparr>node_layer = InputLayer sh, node_name = n, node_inputs = [],
               node_shape = sh\<rparr>]\<rparr>))))"

definition layer_call ::
  "layer \<Rightarrow> layer_name \<Rightarrow> nat \<Rightarrow> pystate \<Rightarrow> py_error + pyvalue \<times> pystate" where
  "layer_call l nm i st =
    (if i < length (graph st) then
       bind_err (compute_output_shape l (node_shape (graph st ! i))) (\<lambda>sh.
       Inr (TensorV (length (graph st)),
            st\<lparr>graph := graph st @
              [\<lparr>node_layer = l, node_name = nm, node_inputs = [i], node_shape = sh\<rparr>]\<rparr>))
     else Inl ValueError)"

definition call ::
  "pyvalue \<Rightarrow> pyvalue list \<Rightarrow> (string \<times> pyvalue) list \<Rightarrow> pystate \<Rightarrow> py_error + pyvalue \<times> pystate" where
  "call f pos kw st =
    (case f of
       ApiV path \<Rightarrow>
         if path = [''tensorflow'', ''keras'', ''Input''] then Input pos kw st
         else if path = [''tensorflow'', ''keras'', ''layers'', ''Conv2D'']
           then bind_err (Conv2D_init pos kw) (\<lambda>c. new_layer c st)
         else if path = [''tensorflow'', ''keras'', ''layers'', ''MaxPooling2D'']
           then bind_err (MaxPooling2D_init pos kw) (\<lambda>c. new_layer c st)
         else if path = [''tensorflow'', ''keras'', ''layers'', ''Flatten'']
           then bind_err (Flatten_init pos kw) (\<lambda>c. new_layer c st)
         else if path = [''tensorflow'', ''keras'', ''layers'', ''Dense'']
           then bind_err (Dense_init pos kw) (\<lambda>c. new_layer c st)
         else if path = [''tensorflow'', ''keras'', ''layers'', ''Dropout'']
           then bind_err (Dropout_init pos kw) (\<lambda>c. new_layer c st)
         else Inl TypeError
     | LayerV l nm \<Rightarrow>
         (case (pos, kw) of
            ([TensorV i], []) \<Rightarrow> layer_call l nm i st
          | _ \<Rightarrow> Inl TypeError)
     | _ \<Rightarrow> Inl TypeError)"

section \<open>Evaluation and execution\<close>

fun eval :: "expr \<Rightarrow> pystate \<Rightarrow> py_error + pyvalue \<times> pystate"
  and eval_list :: "expr list \<Rightarrow> pystate \<Rightarrow> py_error + pyvalue list \<times> pystate"
  and eval_keywords ::
    "(string \<times> expr) list \<Rightarrow> pystate \<Rightarrow> py_error + (string \<times> pyvalue) list \<times> pystate"
where
  "eval (Name x) st = (case globals st x of None \<Rightarrow> Inl (NameError x) | Some v \<Rightarrow> Inr (v, st))"
| "eval (IntLit i) st = Inr (IntV i, st)"
| "eval (FloatLit m k) st = Inr (FloatV (of_int m / 10 ^ k), st)"
| "eval (StrLit s) st = Inr (StrV s, st)"
| "eval (TupleE es) st = bind_err (eval_list es st) (\<lambda>(vs, st'). Inr (TupleV vs, st'))"
| "eval (Attribute e a) st =
    bind_err (eval e st) (\<lambda>(v, st'). bind_err (getattr v a) (\<lambda>w. Inr (w, st')))"
| "eval (Call f pos kw) st =
    bind_err (eval f st) (\<lambda>(fv, st1).
    bind_err (eval_list pos st1) (\<lambda>(pv, st2).
    bind_err (eval_keywords kw st2) (\<lambda>(kv, st3). call fv pv kv st3)))"
| "eval_list [] st = Inr ([], st)"
| "eval_list (e # es) st =
    bind_err (eval e st) (\<lambda>(v, st1).
    bind_err (eval_list es st1) (\<lambda>(vs, st2). Inr (v # vs, st2)))"
| "eval_keywords [] st = Inr ([], st)"
| "eval_keywords ((k, e) # kes) st =
    bind_err (eval e st) (\<lambda>(v, st1).
    bind_err (eval_keywords kes st1) (\<lambda>(kvs, st2). Inr ((k, v) # kvs, st2)))"

fun exec_stmt :: "stmt \<Rightarrow> pystate \<Rightarrow> py_error + pystate" where
  "exec_stmt (Import m a) st =
    (if m = ''tensorflow'' then Inr (st\<lparr>globals := (globals st)(a \<mapsto> ApiV [m])\<rparr>)
     else Inl (ModuleNotFoundError m))"
| "exec_stmt (Assign x e) st =
    bind_err (eval e st) (\<lambda>(v, st'). Inr (st'\<lparr>globals := (globals st')(x \<mapsto> v)\<rparr>))"
| "exec_stmt (ExprStmt e) st = bind_err (eval e st) (\<lambda>(v, st'). Inr st')"

fun exec_stmts :: "stmt list \<Rightarrow> pystate \<Rightarrow> py_error + pystate" where
  "exec_stmts [] st = Inr st"
| "exec_stmts (s # ss) st = bind_err (exec_stmt s st) (exec_stmts ss)"

text \<open>
  Python compiles a module as a whole before it runs its first statement: a line that
  does not parse stops the module before anything is executed.
\<close>

definition run_module :: "logical_line list \<Rightarrow> pystate \<Rightarrow> py_error + pystate" where
  "run_module src st = bind_err (parse_module src) (\<lambda>prog. exec_stmts prog st)"

section \<open>The declared architecture\<close>

text \<open>
  The declarations are the lines after the first. What they declare is the state they
  build when \<open>tf\<close> names the \<open>tensorflow\<close> package, from any bindings \<open>env\<close> the module's
  namespace may hold before, any values \<open>u\<close> of the framework's name counters, and an
  empty graph.
\<close>

definition declarations :: "logical_line list" where
  "declarations = tl model_py"

definition declared :: "(string \<rightharpoonup> pyvalue) \<Rightarrow> (string \<Rightarrow> nat) \<Rightarrow> py_error + pystate" where
  "declared env u =
    run_module declarations
      \<lparr>globals = env(''tf'' \<mapsto> ApiV [''tensorflow'']), graph = [], uids = u\<rparr>"

definition architecture :: "(string \<rightharpoonup> pyvalue) \<Rightarrow> (string \<Rightarrow> nat) \<Rightarrow> node list" where
  "architecture env u = (case declared env u of Inl e \<Rightarrow> [] | Inr s \<Rightarrow> graph s)"

definition binding :: "(string \<rightharpoonup> pyvalue) \<Rightarrow> (string \<Rightarrow> nat) \<Rightarrow> string \<Rightarrow> pyvalue option" where
  "binding env u x = (case declared env u of Inl e \<Rightarrow> None | Inr s \<Rightarrow> globals s x)"

text \<open>The name counters the construction leaves behind, and those of a fresh process.\<close>

definition uids_after :: "(string \<rightharpoonup> pyvalue) \<Rightarrow> (string \<Rightarrow> nat) \<Rightarrow> string \<Rightarrow> nat" where
  "uids_after env u = (case declared env u of Inl e \<Rightarrow> u | Inr s \<Rightarrow> uids s)"

definition fresh :: "string \<Rightarrow> nat" where
  "fresh c = 0"

definition assigned_names :: "stmt list \<Rightarrow> string list" where
  "assigned_names prog =
    remdups (concat (map
      (\<lambda>s. case s of Assign x e \<Rightarrow> [x] | Import m a \<Rightarrow> [a] | ExprStmt e \<Rightarrow> []) prog))"

subsection \<open>Queries on the syntax\<close>

fun dotted :: "expr \<Rightarrow> string list option" where
  "dotted (Name x) = Some [x]"
| "dotted (Attribute e a) = map_option (\<lambda>p. p @ [a]) (dotted e)"
| "dotted e = None"

text \<open>
  The callee of every call in an expression, innermost first: its dotted name, or \<open>None\<close>
  when the callee is itself the result of a call.
\<close>

fun calls :: "expr \<Rightarrow> string list option list"
  and calls_list :: "expr list \<Rightarrow> string list option list"
  and calls_keywords :: "(string \<times> expr) list \<Rightarrow> string list option list"
where
  "calls (Name x) = []"
| "calls (IntLit i) = []"
| "calls (FloatLit m k) = []"
| "calls (StrLit s) = []"
| "calls (TupleE es) = calls_list es"
| "calls (Attribute e a) = calls e"
| "calls (Call f pos kw) = calls f @ calls_list pos @ calls_keywords kw @ [dotted f]"
| "calls_list [] = []"
| "calls_list (e # es) = calls e @ calls_list es"
| "calls_keywords [] = []"
| "calls_keywords ((k, e) # kes) = calls e @ calls_keywords kes"

fun stmt_calls :: "stmt \<Rightarrow> string list option list" where
  "stmt_calls (Import m a) = []"
| "stmt_calls (Assign x e) = calls e"
| "stmt_calls (ExprStmt e) = calls e"

fun is_assignment :: "stmt \<Rightarrow> bool" where
  "is_assignment (Assign x e) = True"
| "is_assignment s = False"

definition program :: "stmt list" where
  "program = (case parse_module declarations of Inl e \<Rightarrow> [] | Inr prog \<Rightarrow> prog)"

subsection \<open>Queries on the graph\<close>

definition consumers :: "node list \<Rightarrow> nat \<Rightarrow> nat list" where
  "consumers g i = filter (\<lambda>j. i \<in> set (node_inputs (g ! j))) [0..<length g]"

definition output_layers :: "node list \<Rightarrow> nat list" where
  "output_layers g = filter (\<lambda>i. consumers g i = []) [0..<length g]"

text \<open>
  A single chain: every node after the first has the node just before it as its only
  input. No fan-out: no node is consumed by more than one node.
\<close>

definition single_chain :: "node list \<Rightarrow> bool" where
  "single_chain g = list_all (\<lambda>i. node_inputs (g ! i) = [i - 1]) [1..<length g]"

definition fan_out_free :: "node list \<Rightarrow> bool" where
  "fan_out_free g = list_all (\<lambda>i. length (consumers g i) \<le> 1) [0..<length g]"

fun is_input :: "layer \<Rightarrow> bool" where
  "is_input (InputLayer sh) = True"
| "is_input l = False"

fun is_conv :: "layer \<Rightarrow> bool" where
  "is_conv (Conv2D f k st pad act) = True"
| "is_conv l = False"

fun is_dense :: "layer \<Rightarrow> bool" where
  "is_dense (Dense u act) = True"
| "is_dense l = False"

definition positions :: "(layer \<Rightarrow> bool) \<Rightarrow> node list \<Rightarrow> nat list" where
  "positions P g = filter (\<lambda>i. P (node_layer (g ! i))) [0..<length g]"

text \<open>
  The nodes a tensor is computed through, from the root: the walk follows the single
  input of each node and stops at a node with no input or with several.
\<close>

fun lineage :: "nat \<Rightarrow> node list \<Rightarrow> nat \<Rightarrow> nat list" where
  "lineage 0 g i = []"
| "lineage (Suc n) g i =
    (if i < length g then
       (case node_inputs (g ! i) of
          [j] \<Rightarrow> lineage n g j @ [i]
        | _ \<Rightarrow> [i])
     else [])"

text \<open>
  A node without what the framework generated: its layer, the name the source gave it if
  it gave one, its inputs and its shape.
\<close>

fun given_name :: "layer_name \<Rightarrow> string option" where
  "given_name (Given s) = Some s"
| "given_name (Generated c k) = None"

definition as_written :: "node \<Rightarrow> layer \<times> string option \<times> nat list \<times> nat list" where
  "as_written n = (node_layer n, given_name (node_name n), node_inputs n, node_shape n)"

section \<open>The declarations, parsed and executed\<close>

text \<open>The first line is no statement; with \<open>import\<close> spelled out it would be one.\<close>

lemma first_line_invalid:
  "parse_stmt [NAME ''mport'', NAME ''tensorflow'', NAME ''as'', NAME ''tf''] = Invalid"
  by code_simp

lemma import_line_parses:
  "parse_stmt [NAME ''import'', NAME ''tensorflow'', NAME ''as'', NAME ''tf''] =
    Ok (Import ''tensorflow'' ''tf'')"
  by code_simp

lemma parse_model_py: "parse_module model_py = Inl (SyntaxError 1)"
  by code_simp

text \<open>Every line after the first parses; this is the syntax tree of the declarations.\<close>

lemma parse_declarations: "parse_module declarations = Inr
 ([Assign ''IM_SIZE'' (IntLit 16),
      Assign ''image_input''
       (Call (Attribute (Attribute (Name ''tf'') ''keras'') ''Input'') []
         [(''shape'', TupleE [Name ''IM_SIZE'', Name ''IM_SIZE'', IntLit 3])]),
      Assign ''conv_1''
       (Call
         (Call (Attribute (Attribute (Attribute (Name ''tf'') ''keras'') ''layers'') ''Conv2D'')
           [IntLit 32]
           [(''kernel_size'', TupleE [IntLit 3, IntLit 3]),
            (''padding'', StrLit ''same''),
            (''activation'', StrLit ''relu'')])
         [Name ''image_input''] []),
      Assign ''conv_1''
       (Call
         (Call (Attribute (Attribute (Attribute (Name ''tf'') ''keras'') ''layers'') ''MaxPooling2D'')
           [] [(''padding'', StrLit ''same'')])
         [Name ''conv_1''] []),
      Assign ''conv_2''
       (Call
         (Call (Attribute (Attribute (Attribute (Name ''tf'') ''keras'') ''layers'') ''Conv2D'')
           [IntLit 32]
           [(''kernel_size'', TupleE [IntLit 3, IntLit 3]),
            (''padding'', StrLit ''same''),
            (''activation'', StrLit ''relu'')])
         [Name ''conv_1''] []),
      Assign ''conv_2''
       (Call
         (Call (Attribute (Attribute (Attribute (Name ''tf'') ''keras'') ''layers'') ''MaxPooling2D'')
           [] [(''padding'', StrLit ''same'')])
         [Name ''conv_2''] []),
      Assign ''conv_flat''
       (Call
         (Call (Attribute (Attribute (Attribute (Name ''tf'') ''keras'') ''layers'') ''Flatten'')
           [] [])
         [Name ''conv_2''] []),
      Assign ''fc_1''
       (Call
         (Call (Attribute (Attribute (Attribute (Name ''tf'') ''keras'') ''layers'') ''Dense'')
           [IntLit 128] [(''activation'', StrLit ''relu'')])
         [Name ''conv_flat''] []),
      Assign ''fc_1''
       (Call
         (Call (Attribute (Attribute (Attribute (Name ''tf'') ''keras'') ''layers'') ''Dropout'')
           [FloatLit 2 1] [])
         [Name ''fc_1''] []),
      Assign ''fc_2''
       (Call
         (Call (Attribute (Attribute (Attribute (Name ''tf'') ''keras'') ''layers'') ''Dense'')
           [IntLit 128] [(''activation'', StrLit ''relu'')])
         [Name ''fc_1''] []),
      Assign ''fc_2''
       (Call
         (Call (Attribute (Attribute (Attribute (Name ''tf'') ''keras'') ''layers'') ''Dropout'')
           [FloatLit 2 1] [])
         [Name ''fc_2''] []),
      Assign ''weather_output''
       (Call
         (Call (Attribute (Attribute (Attribute (Name ''tf'') ''keras'') ''layers'') ''Dense'')
           [IntLit 4]
           [(''activation'', StrLit ''softmax''), (''name'', StrLit ''weather'')])
         [Name ''fc_2''] []),
      Assign ''ground_output''
       (Call
         (Call (Attribute (Attribute (Attribute (Name ''tf'') ''keras'') ''layers'') ''Dense'')
           [IntLit 13]
           [(''activation'', StrLit ''sigmoid''), (''name'', StrLit ''ground'')])
         [Name ''fc_2''] [])])"
  by code_simp

lemma program_eq: "program =
  [Assign ''IM_SIZE'' (IntLit 16),
      Assign ''image_input''
       (Call (Attribute (Attribute (Name ''tf'') ''keras'') ''Input'') []
         [(''shape'', TupleE [Name ''IM_SIZE'', Name ''IM_SIZE'', IntLit 3])]),
      Assign ''conv_1''
       (Call
         (Call (Attribute (Attribute (Attribute (Name ''tf'') ''keras'') ''layers'') ''Conv2D'')
           [IntLit 32]
           [(''kernel_size'', TupleE [IntLit 3, IntLit 3]),
            (''padding'', StrLit ''same''),
            (''activation'', StrLit ''relu'')])
         [Name ''image_input''] []),
      Assign ''conv_1''
       (Call
         (Call (Attribute (Attribute (Attribute (Name ''tf'') ''keras'') ''layers'') ''MaxPooling2D'')
           [] [(''padding'', StrLit ''same'')])
         [Name ''conv_1''] []),
      Assign ''conv_2''
       (Call
         (Call (Attribute (Attribute (Attribute (Name ''tf'') ''keras'') ''layers'') ''Conv2D'')
           [IntLit 32]
           [(''kernel_size'', TupleE [IntLit 3, IntLit 3]),
            (''padding'', StrLit ''same''),
            (''activation'', StrLit ''relu'')])
         [Name ''conv_1''] []),
      Assign ''conv_2''
       (Call
         (Call (Attribute (Attribute (Attribute (Name ''tf'') ''keras'') ''layers'') ''MaxPooling2D'')
           [] [(''padding'', StrLit ''same'')])
         [Name ''conv_2''] []),
      Assign ''conv_flat''
       (Call
         (Call (Attribute (Attribute (Attribute (Name ''tf'') ''keras'') ''layers'') ''Flatten'')
           [] [])
         [Name ''conv_2''] []),
      Assign ''fc_1''
       (Call
         (Call (Attribute (Attribute (Attribute (Name ''tf'') ''keras'') ''layers'') ''Dense'')
           [IntLit 128] [(''activation'', StrLit ''relu'')])
         [Name ''conv_flat''] []),
      Assign ''fc_1''
       (Call
         (Call (Attribute (Attribute (Attribute (Name ''tf'') ''keras'') ''layers'') ''Dropout'')
           [FloatLit 2 1] [])
         [Name ''fc_1''] []),
      Assign ''fc_2''
       (Call
         (Call (Attribute (Attribute (Attribute (Name ''tf'') ''keras'') ''layers'') ''Dense'')
           [IntLit 128] [(''activation'', StrLit ''relu'')])
         [Name ''fc_1''] []),
      Assign ''fc_2''
       (Call
         (Call (Attribute (Attribute (Attribute (Name ''tf'') ''keras'') ''layers'') ''Dropout'')
           [FloatLit 2 1] [])
         [Name ''fc_2''] []),
      Assign ''weather_output''
       (Call
         (Call (Attribute (Attribute (Attribute (Name ''tf'') ''keras'') ''layers'') ''Dense'')
           [IntLit 4]
           [(''activation'', StrLit ''softmax''), (''name'', StrLit ''weather'')])
         [Name ''fc_2''] []),
      Assign ''ground_output''
       (Call
         (Call (Attribute (Attribute (Attribute (Name ''tf'') ''keras'') ''layers'') ''Dense'')
           [IntLit 13]
           [(''activation'', StrLit ''sigmoid''), (''name'', StrLit ''ground'')])
         [Name ''fc_2''] [])]"
  by (simp add: program_def parse_declarations)

text \<open>
  With the import spelled out, the module would run the declarations in a namespace
  where \<open>tf\<close> is the package: this is the state \<open>declared\<close> computes.
\<close>

lemma declared_is_module_with_import:
  "run_module ((1, [NAME ''import'', NAME ''tensorflow'', NAME ''as'', NAME ''tf'']) # declarations)
     \<lparr>globals = env, graph = [], uids = u\<rparr> = declared env u"
  by (simp add: run_module_def declared_def import_line_parses parse_declarations)

lemmas api_defs = Conv2D_init_def MaxPooling2D_init_def Flatten_init_def Dense_init_def
  Dropout_init_def Input_def layer_call_def call_def bind_args_def required_def default_def
  api_members_def conv_output_length_def set_name_def new_layer_def

text \<open>The graph the declarations build, whatever the namespace held before.\<close>

lemma architecture_eq: "architecture env u =
     [\<lparr>node_layer = InputLayer [16, 16, 3], node_name =
         Generated ''InputLayer'' (u ''InputLayer''),
         node_inputs = [], node_shape = [16, 16, 3]\<rparr>,
      \<lparr>node_layer = Conv2D 32 (3, 3) (1, 1) Same Relu, node_name =
         Generated ''Conv2D'' (u ''Conv2D''),
         node_inputs = [0], node_shape = [16, 16, 32]\<rparr>,
      \<lparr>node_layer = MaxPooling2D (2, 2) (2, 2) Same, node_name =
         Generated ''MaxPooling2D'' (u ''MaxPooling2D''),
         node_inputs = [1], node_shape = [8, 8, 32]\<rparr>,
      \<lparr>node_layer = Conv2D 32 (3, 3) (1, 1) Same Relu, node_name =
         Generated ''Conv2D'' (Suc (u ''Conv2D'')),
         node_inputs = [2], node_shape = [8, 8, 32]\<rparr>,
      \<lparr>node_layer = MaxPooling2D (2, 2) (2, 2) Same, node_name =
         Generated ''MaxPooling2D'' (Suc (u ''MaxPooling2D'')),
         node_inputs = [3], node_shape = [4, 4, 32]\<rparr>,
      \<lparr>node_layer = Flatten, node_name =
         Generated ''Flatten'' (u ''Flatten''), node_inputs = [4],
         node_shape = [512]\<rparr>,
      \<lparr>node_layer = Dense 128 Relu, node_name =
         Generated ''Dense'' (u ''Dense''), node_inputs = [5],
         node_shape = [128]\<rparr>,
      \<lparr>node_layer = Dropout 0.2, node_name =
         Generated ''Dropout'' (u ''Dropout''), node_inputs = [6],
         node_shape = [128]\<rparr>,
      \<lparr>node_layer = Dense 128 Relu, node_name =
         Generated ''Dense'' (Suc (u ''Dense'')), node_inputs = [7],
         node_shape = [128]\<rparr>,
      \<lparr>node_layer = Dropout 0.2, node_name =
         Generated ''Dropout'' (Suc (u ''Dropout'')), node_inputs = [8],
         node_shape = [128]\<rparr>,
      \<lparr>node_layer = Dense 4 Softmax, node_name = Given ''weather'',
         node_inputs = [9], node_shape = [4]\<rparr>,
      \<lparr>node_layer = Dense 13 Sigmoid, node_name = Given ''ground'',
         node_inputs = [9], node_shape = [13]\<rparr>]"
  by (simp add: architecture_def declared_def run_module_def parse_declarations api_defs)


text \<open>The names the declarations bind; every other name keeps what it had.\<close>

lemma binding_eq: "binding env u x =
  (if x = ''ground_output'' then Some (TensorV 11)
   else if x = ''weather_output'' then Some (TensorV 10)
   else if x = ''fc_2'' then Some (TensorV 9)
   else if x = ''fc_1'' then Some (TensorV 7)
   else if x = ''conv_flat'' then Some (TensorV 5)
   else if x = ''conv_2'' then Some (TensorV 4)
   else if x = ''conv_1'' then Some (TensorV 2)
   else if x = ''image_input'' then Some (TensorV 0)
   else if x = ''IM_SIZE'' then Some (IntV 16)
   else if x = ''tf'' then Some (ApiV [''tensorflow''])
   else env x)"
  by (simp add: binding_def declared_def run_module_def parse_declarations api_defs)

text \<open>The name counters afterwards: one name generated for each unnamed layer.\<close>

lemma uids_after_eq: "uids_after env u c =
  (if c = ''InputLayer'' \<or> c = ''Flatten'' then u c + 1
   else if c = ''Conv2D'' \<or> c = ''MaxPooling2D'' \<or> c = ''Dense'' \<or> c = ''Dropout'' then u c + 2
   else u c)"
  by (simp add: uids_after_def declared_def run_module_def parse_declarations api_defs)

lemma lineage_numeral:
  "lineage (numeral k) g i =
    (if i < length g then
       (case node_inputs (g ! i) of
          [j] \<Rightarrow> lineage (pred_numeral k) g j @ [i]
        | _ \<Rightarrow> [i])
     else [])"
  by (simp add: numeral_eq_Suc)

section \<open>The claims\<close>

text \<open>
  C2. Executing the module constructs nothing. Its first logical line is the token
  sequence \<open>mport tensorflow as tf\<close>, which is no statement of the grammar, so running
  the module from any state stops with a \<open>SyntaxError\<close> at line 1 and returns no state:
  no declaration after it takes effect.
\<close>

theorem module_raises_syntax_error:
  "snd (hd model_py) = [NAME ''mport'', NAME ''tensorflow'', NAME ''as'', NAME ''tf''] \<and>
   parse_stmt (snd (hd model_py)) = Invalid \<and>
   run_module model_py st = Inl (SyntaxError 1)"
  by (simp add: run_module_def parse_model_py first_line_invalid model_py_def)

text \<open>
  C1. The declared network has exactly two output layers, that is, two nodes whose
  result no other node consumes: node 10, a \<open>Dense\<close> layer of 4 units named \<open>weather\<close>,
  and node 11, a \<open>Dense\<close> layer of 13 units named \<open>ground\<close>. Both are applied to node 9,
  the tensor that \<open>fc_2\<close> is bound to.
\<close>

theorem two_output_layers:
  "output_layers (architecture env u) = [10, 11] \<and>
   architecture env u ! 10 =
     \<lparr>node_layer = Dense 4 Softmax, node_name = Given ''weather'',
      node_inputs = [9], node_shape = [4]\<rparr> \<and>
   architecture env u ! 11 =
     \<lparr>node_layer = Dense 13 Sigmoid, node_name = Given ''ground'',
      node_inputs = [9], node_shape = [13]\<rparr> \<and>
   binding env u ''fc_2'' = Some (TensorV 9) \<and>
   binding env u ''weather_output'' = Some (TensorV 10) \<and>
   binding env u ''ground_output'' = Some (TensorV 11)"
  by (simp add: architecture_eq binding_eq output_layers_def consumers_def)

text \<open>
  C3, refuted as stated. The claim reads: every layer call takes as its sole input the
  result of the call just before it, so the graph is one chain without fan-out. The last
  call, the \<open>ground\<close> head, takes node 9 and not node 10, and node 9 is consumed twice.
\<close>

theorem not_a_single_chain:
  "\<not> single_chain (architecture Map.empty fresh) \<and>
   \<not> fan_out_free (architecture Map.empty fresh)"
  by (simp add: architecture_eq single_chain_def fan_out_free_def consumers_def)

text \<open>
  C3, amended. Every layer call takes exactly one input. Every call but the last takes
  the result of the call just before it: without the last node the graph is a single
  chain from the input to the \<open>weather\<close> head. The last call, the \<open>ground\<close> head, takes
  node 9 (\<open>fc_2\<close>), the tensor the \<open>weather\<close> head takes, so node 9 is consumed twice,
  the two heads are consumed by nothing, and every other node is consumed once.
\<close>

theorem chain_then_two_heads:
  "map node_inputs (architecture env u) =
     [[], [0], [1], [2], [3], [4], [5], [6], [7], [8], [9], [9]] \<and>
   single_chain (butlast (architecture env u)) \<and>
   map (\<lambda>i. length (consumers (architecture env u) i)) [0..<length (architecture env u)] =
     [1, 1, 1, 1, 1, 1, 1, 1, 1, 2, 0, 0]"
  by (simp add: architecture_eq single_chain_def consumers_def)

text \<open>
  C5. The declared architecture is convolutional: the convolutions are nodes 1 and 3, the
  dense layers nodes 6, 8, 10 and 11. From the image input the graph runs through
  \<open>Conv2D(32, (3, 3), padding='same', activation='relu')\<close>, \<open>MaxPooling2D(padding='same')\<close>,
  the same pair once more, and \<open>Flatten\<close>, each applied to the result of the one before,
  ahead of the first dense layer.
\<close>

theorem convolutions_precede_dense:
  "map node_layer (take 6 (architecture env u)) =
     [InputLayer [16, 16, 3],
      Conv2D 32 (3, 3) (1, 1) Same Relu, MaxPooling2D (2, 2) (2, 2) Same,
      Conv2D 32 (3, 3) (1, 1) Same Relu, MaxPooling2D (2, 2) (2, 2) Same,
      Flatten] \<and>
   map node_inputs (take 6 (architecture env u)) = [[], [0], [1], [2], [3], [4]] \<and>
   binding env u ''image_input'' = Some (TensorV 0) \<and>
   positions is_conv (architecture env u) = [1, 3] \<and>
   positions is_dense (architecture env u) = [6, 8, 10, 11]"
  by (simp add: architecture_eq binding_eq positions_def)

text \<open>
  C6, refuted as stated. The claim ends: constructing the declarations changes no state
  outside the declared graph. In a fresh process the construction leaves the framework's
  name counters advanced: by one for the input layer and for \<open>Flatten\<close>, by two for each
  of \<open>Conv2D\<close>, \<open>MaxPooling2D\<close>, \<open>Dense\<close> and \<open>Dropout\<close>.
\<close>

theorem construction_advances_name_counters:
  "uids_after Map.empty fresh \<noteq> fresh \<and>
   map (uids_after Map.empty fresh)
     [''InputLayer'', ''Conv2D'', ''MaxPooling2D'', ''Flatten'', ''Dense'', ''Dropout''] =
     [1, 2, 2, 1, 2, 2]"
proof -
  have "uids_after Map.empty fresh ''Conv2D'' \<noteq> fresh ''Conv2D''"
    by (simp add: uids_after_eq fresh_def)
  then have "uids_after Map.empty fresh \<noteq> fresh"
    by auto
  then show ?thesis
    by (simp add: uids_after_eq fresh_def)
qed

text \<open>
  C6, amended. The declarations only build layers: every line after the first parses,
  every statement is an assignment, and the calls are, in order, \<open>tf.keras.Input\<close> and
  then, eleven times, a constructor of \<open>tf.keras.layers\<close> followed by the call of the
  layer it constructed; nothing trains, loads, evaluates, saves, reads arguments or files,
  or opens a connection. Constructing them changes, besides the graph, the nine names they
  assign, whose values depend on nothing that was there before, and the framework's name
  counters, advanced once for each of the ten layers the source leaves unnamed. Every
  other name of the namespace and every other counter is left as it was.
\<close>

theorem declarations_only_build_layers:
  "parse_module declarations = Inr program \<and>
   list_all is_assignment program \<and>
   concat (map stmt_calls program) =
     [Some [''tf'', ''keras'', ''Input''],
      Some [''tf'', ''keras'', ''layers'', ''Conv2D''], None,
      Some [''tf'', ''keras'', ''layers'', ''MaxPooling2D''], None,
      Some [''tf'', ''keras'', ''layers'', ''Conv2D''], None,
      Some [''tf'', ''keras'', ''layers'', ''MaxPooling2D''], None,
      Some [''tf'', ''keras'', ''layers'', ''Flatten''], None,
      Some [''tf'', ''keras'', ''layers'', ''Dense''], None,
      Some [''tf'', ''keras'', ''layers'', ''Dropout''], None,
      Some [''tf'', ''keras'', ''layers'', ''Dense''], None,
      Some [''tf'', ''keras'', ''layers'', ''Dropout''], None,
      Some [''tf'', ''keras'', ''layers'', ''Dense''], None,
      Some [''tf'', ''keras'', ''layers'', ''Dense''], None] \<and>
   assigned_names program =
     [''IM_SIZE'', ''image_input'', ''conv_1'', ''conv_2'', ''conv_flat'', ''fc_1'', ''fc_2'',
      ''weather_output'', ''ground_output''] \<and>
   binding env u x =
     (if x \<in> set (assigned_names program) then binding Map.empty fresh x
      else (env(''tf'' \<mapsto> ApiV [''tensorflow''])) x) \<and>
   uids_after env u c =
     (if c = ''InputLayer'' \<or> c = ''Flatten'' then u c + 1
      else if c = ''Conv2D'' \<or> c = ''MaxPooling2D'' \<or> c = ''Dense'' \<or> c = ''Dropout''
        then u c + 2
      else u c)"
proof -
  have names: "assigned_names program =
      [''IM_SIZE'', ''image_input'', ''conv_1'', ''conv_2'', ''conv_flat'', ''fc_1'', ''fc_2'',
       ''weather_output'', ''ground_output'']"
    by (simp add: program_eq assigned_names_def)
  have parsed: "parse_module declarations = Inr program"
    by (simp add: parse_declarations program_eq)
  have assigns: "list_all is_assignment program"
    by (simp add: program_eq)
  have frame: "binding env u x =
     (if x \<in> set (assigned_names program) then binding Map.empty fresh x
      else (env(''tf'' \<mapsto> ApiV [''tensorflow''])) x)"
    unfolding names by (simp add: binding_eq)
  have "concat (map stmt_calls program) =
     [Some [''tf'', ''keras'', ''Input''],
      Some [''tf'', ''keras'', ''layers'', ''Conv2D''], None,
      Some [''tf'', ''keras'', ''layers'', ''MaxPooling2D''], None,
      Some [''tf'', ''keras'', ''layers'', ''Conv2D''], None,
      Some [''tf'', ''keras'', ''layers'', ''MaxPooling2D''], None,
      Some [''tf'', ''keras'', ''layers'', ''Flatten''], None,
      Some [''tf'', ''keras'', ''layers'', ''Dense''], None,
      Some [''tf'', ''keras'', ''layers'', ''Dropout''], None,
      Some [''tf'', ''keras'', ''layers'', ''Dense''], None,
      Some [''tf'', ''keras'', ''layers'', ''Dropout''], None,
      Some [''tf'', ''keras'', ''layers'', ''Dense''], None,
      Some [''tf'', ''keras'', ''layers'', ''Dense''], None]"
    by (simp add: program_eq)
  with names parsed assigns frame uids_after_eq [of env u c] show ?thesis
    by (simp only: simp_thms)
qed

text \<open>
  C7. No call of the declarations is a call of \<open>tf.keras.Model\<close>. The graph has one
  input node, node 0, bound to \<open>image_input\<close>. Both heads take node 9, the tensor bound
  to \<open>fc_2\<close>, and node 9 is computed from node 0 through nodes 1 to 8 in turn: the two
  convolution and pooling pairs, \<open>Flatten\<close>, and twice \<open>Dense(128, relu)\<close> followed by
  \<open>Dropout(0.2)\<close>.
\<close>

theorem shared_backbone_no_model:
  "Some [''tf'', ''keras'', ''Model''] \<notin> set (concat (map stmt_calls program)) \<and>
   binding env u ''image_input'' = Some (TensorV 0) \<and>
   binding env u ''fc_2'' = Some (TensorV 9) \<and>
   positions is_input (architecture env u) = [0] \<and>
   node_inputs (architecture env u ! 10) = [9] \<and>
   node_inputs (architecture env u ! 11) = [9] \<and>
   lineage (length (architecture env u)) (architecture env u) 9 =
     [0, 1, 2, 3, 4, 5, 6, 7, 8, 9] \<and>
   map node_layer (take 10 (architecture env u)) =
     [InputLayer [16, 16, 3],
      Conv2D 32 (3, 3) (1, 1) Same Relu, MaxPooling2D (2, 2) (2, 2) Same,
      Conv2D 32 (3, 3) (1, 1) Same Relu, MaxPooling2D (2, 2) (2, 2) Same,
      Flatten,
      Dense 128 Relu, Dropout 0.2,
      Dense 128 Relu, Dropout 0.2]"
  by (simp add: architecture_eq binding_eq positions_def program_eq lineage_numeral)

text \<open>
  C8. \<open>IM_SIZE\<close> is 16 and the only input node has shape \<open>(16, 16, 3)\<close>. The shapes
  along the convolutional part are \<open>(16, 16, 32)\<close>, \<open>(8, 8, 32)\<close>, \<open>(8, 8, 32)\<close> and
  \<open>(4, 4, 32)\<close>, so \<open>Flatten\<close> yields \<open>4 * 4 * 32 = 512\<close> features, and these are what
  the first \<open>Dense(128)\<close> layer is applied to.
\<close>

theorem input_and_feature_shapes:
  "binding env u ''IM_SIZE'' = Some (IntV 16) \<and>
   positions is_input (architecture env u) = [0] \<and>
   architecture env u ! 0 =
     \<lparr>node_layer = InputLayer [16, 16, 3],
      node_name = Generated ''InputLayer'' (u ''InputLayer''),
      node_inputs = [], node_shape = [16, 16, 3]\<rparr> \<and>
   map node_shape (take 6 (architecture env u)) =
     [[16, 16, 3], [16, 16, 32], [8, 8, 32], [8, 8, 32], [4, 4, 32], [4 * 4 * 32]] \<and>
   node_layer (architecture env u ! 5) = Flatten \<and>
   node_shape (architecture env u ! 5) = [512] \<and>
   node_layer (architecture env u ! 6) = Dense 128 Relu \<and>
   node_inputs (architecture env u ! 6) = [5]"
  by (simp add: architecture_eq binding_eq positions_def)

text \<open>
  C9, refuted as stated. The claim reads: any two runs of the construction produce an
  identical architecture, names included. A second construction in the same process
  starts from the name counters the first has left and gives the unnamed layers other
  names than the first did.
\<close>

theorem second_construction_differs:
  "architecture Map.empty (uids_after Map.empty fresh) \<noteq> architecture Map.empty fresh \<and>
   node_name (architecture Map.empty fresh ! 1) = Generated ''Conv2D'' 0 \<and>
   node_name (architecture Map.empty (uids_after Map.empty fresh) ! 1) = Generated ''Conv2D'' 2"
  by (simp add: architecture_eq uids_after_eq fresh_def)

text \<open>
  C9, amended. The construction has no data-dependent control flow and reads nothing it
  has not assigned itself. Two runs from the same name counters build an identical
  architecture, whatever their namespaces held. Two runs from any name counters build
  graphs of 12 nodes that agree in layer kinds and arguments, shapes, activations,
  connectivity and the names the source gives, and bind the assigned names to the same
  values; they differ only in the names generated for the ten layers the source leaves
  unnamed, which follow the counters.
\<close>

theorem architecture_up_to_generated_names:
  "architecture env1 u = architecture env2 u \<and>
   map as_written (architecture env1 u1) = map as_written (architecture env2 u2) \<and>
   map (binding env1 u1) (assigned_names program) =
     map (binding env2 u2) (assigned_names program) \<and>
   length (architecture env1 u1) = 12 \<and>
   map node_name (architecture env1 u1) =
     [Generated ''InputLayer'' (u1 ''InputLayer''),
      Generated ''Conv2D'' (u1 ''Conv2D''),
      Generated ''MaxPooling2D'' (u1 ''MaxPooling2D''),
      Generated ''Conv2D'' (u1 ''Conv2D'' + 1),
      Generated ''MaxPooling2D'' (u1 ''MaxPooling2D'' + 1),
      Generated ''Flatten'' (u1 ''Flatten''),
      Generated ''Dense'' (u1 ''Dense''),
      Generated ''Dropout'' (u1 ''Dropout''),
      Generated ''Dense'' (u1 ''Dense'' + 1),
      Generated ''Dropout'' (u1 ''Dropout'' + 1),
      Given ''weather'', Given ''ground'']"
  by (simp add: architecture_eq binding_eq program_eq assigned_names_def as_written_def)

end
